theory Spec2Isabelle
  imports Main "HOL-Library.Word" "HOL-Library.Char_ord" "HOL-Library.List_Lexorder"
    "HOL-Library.Product_Lexorder"
begin

section \<open>The attribute mapper of the policy engine (engine/fieldmapper.go)\<close>

text \<open>
  The file embeds \<^verbatim>\<open>core/policyengine/engine/fieldmapper.go\<close>. A Go \<^verbatim>\<open>string\<close> is a
  sequence of bytes and is modelled by \<^typ>\<open>string\<close> (one \<^typ>\<open>char\<close> per byte); an
  \<^verbatim>\<open>int64\<close> is a 64-bit word read in two's complement by \<^term>\<open>sint\<close>; an
  \<^verbatim>\<open>interface{}\<close> result is a tagged value; a run-time panic is the left summand of the
  result of an extractor.
\<close>

subsection \<open>Data\<close>

type_synonym int64 = "64 word"

text \<open>The dynamic types the mappers look for in an \<^verbatim>\<open>interface{}\<close>; every other dynamic
  type (the nil interface included) is \<open>VOther\<close>.\<close>

datatype Value = VInt64 int64 | VString string | VBool bool | VOther

datatype panic = IndexOutOfRange | TypeAssertion

text \<open>\<^verbatim>\<open>flattener.Source\<close>: the source tags the registry names.\<close>

datatype Source = SYSFLOW_SRC | PROCESS_SRC | FILE_SRC | NETWORK_SRC | TARG_PROC_SRC

text \<open>A field identifier. The numbering of \<^verbatim>\<open>sfgo.Attribute\<close> and of the flattener's
  identifiers is declared outside this file, so an identifier is kept by its qualified Go
  name: \<^verbatim>\<open>sfgo.RET_INT\<close> is \<open>sfgo ''RET_INT''\<close>.\<close>

datatype Attribute = sfgo string | flattener string

text \<open>\<^verbatim>\<open>RecAttribute\<close>: the cached attributes the registry names.\<close>

datatype RecAttribute =
    ProcAName | ProcAExe | ProcACmdLine | ProcAPID
  | PProcName | PProcExe | PProcArgs | PProcUID | PProcUser | PProcGID | PProcGroup
  | PProcTTY | PProcEntry | PProcCmdLine

record OID =
  CreateTS :: int64
  Hpid :: int64

text \<open>The record abstraction, by the three getters the mappers call.\<close>

record Record =
  GetStr :: "Attribute \<Rightarrow> Source \<Rightarrow> string"
  GetInt :: "Attribute \<Rightarrow> Source \<Rightarrow> int64"
  GetCachedValue :: "OID \<Rightarrow> RecAttribute \<Rightarrow> Value"

type_synonym FieldMap = "Record \<Rightarrow> panic + Value"
type_synonym IntFieldMap = "Record \<Rightarrow> panic + int64"
type_synonym StrFieldMap = "Record \<Rightarrow> panic + string"

record FieldMapper =
  Mappers :: "string \<rightharpoonup> FieldMap"

text \<open>\<^verbatim>\<open>sfgo.Zeros\<close>: the zero values of the two kinds.\<close>

definition Zeros_Int64 :: int64 where
  "Zeros_Int64 = 0"

definition Zeros_String :: string where
  "Zeros_String = []"

subsection \<open>The standard library functions the mappers call\<close>

text \<open>\<^verbatim>\<open>strconv.ParseUint(s, base, 64)\<close> for a base from 2 to 36 given explicitly: the digit
  loop with its two overflow checks. The accumulator is a \<^verbatim>\<open>uint64\<close>, kept as a natural
  number below \<open>2^64\<close> with the wrap-around of its arithmetic written out.\<close>

datatype NumError = ErrSyntax | ErrRange

definition maxUint64 :: nat where
  "maxUint64 = 2 ^ 64 - 1"

text \<open>The value of a digit character: the library tests \<^verbatim>\<open>c | 0x20\<close> against the range
  from \<^verbatim>\<open>a\<close> to \<^verbatim>\<open>z\<close>, which holds for the letters of either case and for no other
  byte; \<open>lower\<close> is that lower-case letter.\<close>

definition lower :: "nat \<Rightarrow> nat" where
  "lower c = (if 65 \<le> c \<and> c \<le> 90 then c + 32 else c)"

definition digit_of :: "char \<Rightarrow> nat option" where
  "digit_of ch =
     (let c = of_char ch :: nat in
      if 48 \<le> c \<and> c \<le> 57 then Some (c - 48)
      else if 97 \<le> lower c \<and> lower c \<le> 122 then Some (lower c - 97 + 10)
      else None)"

fun ParseUint_loop :: "nat \<Rightarrow> nat \<Rightarrow> string \<Rightarrow> NumError + nat" where
  "ParseUint_loop base n [] = Inr n"
| "ParseUint_loop base n (c # cs) =
     (case digit_of c of
        None \<Rightarrow> Inl ErrSyntax
      | Some d \<Rightarrow>
          if d \<ge> base then Inl ErrSyntax
          else if n \<ge> maxUint64 div base + 1 then Inl ErrRange
          else (let n0 = (n * base) mod 2 ^ 64; n1 = (n0 + d) mod 2 ^ 64
                in if n1 < n0 \<or> n1 > maxUint64 then Inl ErrRange else ParseUint_loop base n1 cs))"

definition ParseUint :: "string \<Rightarrow> nat \<Rightarrow> NumError + nat" where
  "ParseUint s base = (if s = [] then Inl ErrSyntax else ParseUint_loop base 0 s)"

text \<open>\<^verbatim>\<open>strconv.ParseInt(s, 10, 64)\<close>: an optional sign, then the unsigned parse and the
  range check against \<open>2^63\<close>. The result is \<open>None\<close> exactly when the Go function returns
  an error.\<close>

definition ParseInt10 :: "string \<Rightarrow> int64 option" where
  "ParseInt10 s =
     (if s = [] then None
      else
        let neg = (hd s = CHR ''-'');
            s1 = (if hd s = CHR ''+'' \<or> hd s = CHR ''-'' then tl s else s)
        in case ParseUint s1 10 of
             Inl err \<Rightarrow> None
           | Inr un \<Rightarrow>
               if \<not> neg \<and> un \<ge> 2 ^ 63 then None
               else if neg \<and> un > 2 ^ 63 then None
               else Some (if neg then - word_of_nat un else word_of_nat un))"

text \<open>\<^verbatim>\<open>strconv.FormatInt(i, 10)\<close>: the decimal digits of the magnitude, most significant
  first, after a minus sign for a negative value.\<close>

fun digits10 :: "nat \<Rightarrow> string" where
  "digits10 n = (if n < 10 then [''0123456789'' ! n] else digits10 (n div 10) @ [''0123456789'' ! (n mod 10)])"

declare digits10.simps [simp del]

definition FormatInt10 :: "int64 \<Rightarrow> string" where
  "FormatInt10 i = (if sint i < 0 then CHR ''-'' # digits10 (nat (- sint i)) else digits10 (nat (sint i)))"

definition FormatBool :: "bool \<Rightarrow> string" where
  "FormatBool b = (if b then ''true'' else ''false'')"

subsection \<open>The dispatch functions\<close>

definition Map :: "FieldMapper \<Rightarrow> string \<Rightarrow> FieldMap" where
  "Map m attr = (case Mappers m attr of Some mapper \<Rightarrow> mapper | None \<Rightarrow> (\<lambda>r. Inr (VString attr)))"

definition MapInt :: "FieldMapper \<Rightarrow> string \<Rightarrow> IntFieldMap" where
  "MapInt m attr = (\<lambda>r.
     case Map m attr r of
       Inl p \<Rightarrow> Inl p
     | Inr (VInt64 v) \<Rightarrow> Inr v
     | Inr _ \<Rightarrow> (case ParseInt10 attr of Some v \<Rightarrow> Inr v | None \<Rightarrow> Inr Zeros_Int64))"

definition quote_chars :: "char set" where
  "quote_chars = {CHR 0x22, CHR 0x27}"

definition trimBoundingQuotes :: "string \<Rightarrow> string" where
  "trimBoundingQuotes s =
     (let s1 = (if length s > 0 \<and> (s ! 0 = CHR 0x22 \<or> s ! 0 = CHR 0x27) then drop 1 s else s)
      in if length s1 > 0 \<and> (s1 ! (length s1 - 1) = CHR 0x22 \<or> s1 ! (length s1 - 1) = CHR 0x27)
         then take (length s1 - 1) s1 else s1)"

definition MapStr :: "FieldMapper \<Rightarrow> string \<Rightarrow> StrFieldMap" where
  "MapStr m attr = (\<lambda>r.
     case Map m attr r of
       Inl p \<Rightarrow> Inl p
     | Inr (VString v) \<Rightarrow> Inr (trimBoundingQuotes v)
     | Inr (VInt64 v) \<Rightarrow> Inr (FormatInt10 v)
     | Inr (VBool v) \<Rightarrow> Inr (FormatBool v)
     | Inr VOther \<Rightarrow> Inr Zeros_String)"

subsection \<open>Constants and functions declared outside the file\<close>

text \<open>The record-type codes of package \<^verbatim>\<open>sfgo\<close>, the type tags and the list separator of
  package \<^verbatim>\<open>engine\<close>, the decoders of package \<^verbatim>\<open>utils\<close>, \<^verbatim>\<open>filepath.Base\<close>,
  \<^verbatim>\<open>filepath.Dir\<close> and the xxhash digest are used by the mappers and declared elsewhere:
  the mappers take them as parameters. \<open>attr_name\<close> gives the string value of an attribute
  name constant (\<^verbatim>\<open>SF_TYPE\<close>, ...), named by its Go identifier.\<close>

record Extern =
  PROC :: int64
  FILE :: int64
  CONT :: int64
  PROC_EVT :: int64
  FILE_EVT :: int64
  FILE_FLOW :: int64
  NET_FLOW :: int64
  HEADER :: int64
  TyP :: string
  TyF :: string
  TyC :: string
  TyPE :: string
  TyFE :: string
  TyFF :: string
  TyNF :: string
  TyH :: string
  TyUnknow :: string
  LISTSEP :: string
  attr_name :: "string \<Rightarrow> string"
  GetOpFlags :: "32 word \<Rightarrow> string \<Rightarrow> string list"
  GetFileType :: "int64 \<Rightarrow> string"
  IsOpenWrite :: "int64 \<Rightarrow> bool"
  IsOpenRead :: "int64 \<Rightarrow> bool"
  GetOpenFlags :: "int64 \<Rightarrow> string list"
  GetIPStr :: "32 word \<Rightarrow> string"
  GetContType :: "int64 \<Rightarrow> string"
  Base :: "string \<Rightarrow> string"
  Dir :: "string \<Rightarrow> string"
  xxhash_Sum :: "string \<Rightarrow> string"

text \<open>Modelled from the spec: the constant \<^verbatim>\<open>SPACE\<close> of package \<^verbatim>\<open>engine\<close>, declared
  outside this file; the spec gives the join a single-space separator.\<close>

definition SPACE :: string where
  "SPACE = '' ''"

text \<open>\<^verbatim>\<open>strings.Join\<close>.\<close>

fun Join :: "string list \<Rightarrow> string \<Rightarrow> string" where
  "Join [] sep = []"
| "Join [x] sep = x"
| "Join (x # y # ys) sep = x @ sep @ Join (y # ys) sep"

text \<open>\<^verbatim>\<open>fmt.Sprintf("%x", b)\<close> for a byte slice: two lower-case hexadecimal digits a byte.\<close>

definition hex_byte :: "char \<Rightarrow> string" where
  "hex_byte c = [''0123456789abcdef'' ! (of_char c div 16), ''0123456789abcdef'' ! (of_char c mod 16)]"

definition Sprintf_x :: "string \<Rightarrow> string" where
  "Sprintf_x b = concat (map hex_byte b)"

subsection \<open>The extractor factories\<close>

definition mapStr :: "Source \<Rightarrow> Attribute \<Rightarrow> FieldMap" where
  "mapStr src attr = (\<lambda>r. Inr (VString (GetStr r attr src)))"

definition mapInt :: "Source \<Rightarrow> Attribute \<Rightarrow> FieldMap" where
  "mapInt src attr = (\<lambda>r. Inr (VInt64 (GetInt r attr src)))"

fun mapSum_loop :: "Record \<Rightarrow> Source \<Rightarrow> int64 \<Rightarrow> Attribute list \<Rightarrow> int64" where
  "mapSum_loop r src acc [] = acc"
| "mapSum_loop r src acc (attr # attrs) = mapSum_loop r src (acc + GetInt r attr src) attrs"

definition mapSum :: "Source \<Rightarrow> Attribute list \<Rightarrow> FieldMap" where
  "mapSum src attrs = (\<lambda>r. Inr (VInt64 (mapSum_loop r src 0 attrs)))"

fun mapJoin_loop :: "Record \<Rightarrow> Source \<Rightarrow> string \<Rightarrow> Attribute list \<Rightarrow> string" where
  "mapJoin_loop r src join [] = join"
| "mapJoin_loop r src join (attr # attrs) = mapJoin_loop r src (join @ SPACE @ GetStr r attr src) attrs"

text \<open>\<^verbatim>\<open>attrs[0]\<close> is read with no check of the length: on an empty list the run time panics.\<close>

definition mapJoin :: "Source \<Rightarrow> Attribute list \<Rightarrow> FieldMap" where
  "mapJoin src attrs = (\<lambda>r.
     case attrs of
       [] \<Rightarrow> Inl IndexOutOfRange
     | a # rest \<Rightarrow> Inr (VString (mapJoin_loop r src (GetStr r a src) rest)))"

definition recType :: "Extern \<Rightarrow> int64 \<Rightarrow> string" where
  "recType e t =
     (if t = PROC e then TyP e
      else if t = FILE e then TyF e
      else if t = CONT e then TyC e
      else if t = PROC_EVT e then TyPE e
      else if t = FILE_EVT e then TyFE e
      else if t = FILE_FLOW e then TyFF e
      else if t = NET_FLOW e then TyNF e
      else if t = HEADER e then TyH e
      else TyUnknow e)"

definition mapRecType :: "Extern \<Rightarrow> Source \<Rightarrow> FieldMap" where
  "mapRecType e src = (\<lambda>r. Inr (VString (recType e (GetInt r (sfgo ''SF_REC_TYPE'') src))))"

definition mapOpFlags :: "Extern \<Rightarrow> Source \<Rightarrow> FieldMap" where
  "mapOpFlags e src = (\<lambda>r.
     let opflags = GetInt r (sfgo ''EV_PROC_OPFLAGS_INT'') src
     in case mapRecType e src r of
          Inl p \<Rightarrow> Inl p
        | Inr (VString rtype) \<Rightarrow> Inr (VString (Join (GetOpFlags e (ucast opflags) rtype) (LISTSEP e)))
        | Inr _ \<Rightarrow> Inl TypeAssertion)"

definition mapRet :: "Extern \<Rightarrow> Source \<Rightarrow> FieldMap" where
  "mapRet e src = (\<lambda>r.
     let t = GetInt r (sfgo ''SF_REC_TYPE'') src
     in if t = PROC_EVT e then Inr (VInt64 (GetInt r (sfgo ''RET_INT'') src))
        else if t = FILE_EVT e then Inr (VInt64 (GetInt r (sfgo ''RET_INT'') src))
        else Inr (VInt64 Zeros_Int64))"

definition mapEndTs :: "Extern \<Rightarrow> Source \<Rightarrow> FieldMap" where
  "mapEndTs e src = (\<lambda>r.
     let t = GetInt r (sfgo ''SF_REC_TYPE'') src
     in if t = FILE_FLOW e then Inr (VInt64 (GetInt r (sfgo ''FL_FILE_ENDTS_INT'') src))
        else if t = NET_FLOW e then Inr (VInt64 (GetInt r (sfgo ''FL_NETW_ENDTS_INT'') src))
        else Inr (VInt64 Zeros_Int64))"

definition mapEntry :: "Source \<Rightarrow> Attribute \<Rightarrow> FieldMap" where
  "mapEntry src attr = (\<lambda>r. if GetInt r attr src = 1 then Inr (VBool True) else Inr (VBool False))"

definition mapName :: "Extern \<Rightarrow> Source \<Rightarrow> Attribute \<Rightarrow> FieldMap" where
  "mapName e src attr = (\<lambda>r. Inr (VString (Base e (GetStr r attr src))))"

definition mapDir :: "Extern \<Rightarrow> Source \<Rightarrow> Attribute \<Rightarrow> FieldMap" where
  "mapDir e src attr = (\<lambda>r. Inr (VString (Dir e (GetStr r attr src))))"

definition mapFileType :: "Extern \<Rightarrow> Source \<Rightarrow> Attribute \<Rightarrow> FieldMap" where
  "mapFileType e src attr = (\<lambda>r. Inr (VString (GetFileType e (GetInt r attr src))))"

definition mapIsOpenWrite :: "Extern \<Rightarrow> Source \<Rightarrow> Attribute \<Rightarrow> FieldMap" where
  "mapIsOpenWrite e src attr = (\<lambda>r.
     if IsOpenWrite e (GetInt r attr src) then Inr (VBool True) else Inr (VBool False))"

definition mapIsOpenRead :: "Extern \<Rightarrow> Source \<Rightarrow> Attribute \<Rightarrow> FieldMap" where
  "mapIsOpenRead e src attr = (\<lambda>r.
     if IsOpenRead e (GetInt r attr src) then Inr (VBool True) else Inr (VBool False))"

definition mapOpenFlags :: "Extern \<Rightarrow> Source \<Rightarrow> Attribute \<Rightarrow> FieldMap" where
  "mapOpenFlags e src attr = (\<lambda>r. Inr (VString (Join (GetOpenFlags e (GetInt r attr src)) (LISTSEP e))))"

definition mapProto :: "Source \<Rightarrow> Attribute \<Rightarrow> FieldMap" where
  "mapProto src attr = (\<lambda>r. Inr (VInt64 (GetInt r attr src)))"

definition mapPort :: "Extern \<Rightarrow> Source \<Rightarrow> Attribute list \<Rightarrow> FieldMap" where
  "mapPort e src attrs = (\<lambda>r.
     Inr (VString (Join (map (\<lambda>attr. FormatInt10 (GetInt r attr src)) attrs) (LISTSEP e))))"

definition mapIP :: "Extern \<Rightarrow> Source \<Rightarrow> Attribute list \<Rightarrow> FieldMap" where
  "mapIP e src attrs = (\<lambda>r.
     Inr (VString (Join (map (\<lambda>attr. GetIPStr e (ucast (GetInt r attr src))) attrs) (LISTSEP e))))"

definition mapContType :: "Extern \<Rightarrow> Source \<Rightarrow> Attribute \<Rightarrow> FieldMap" where
  "mapContType e src attr = (\<lambda>r. Inr (VString (GetContType e (GetInt r attr src))))"

definition mapCachedValue :: "Source \<Rightarrow> RecAttribute \<Rightarrow> FieldMap" where
  "mapCachedValue src attr = (\<lambda>r.
     let oid = \<lparr>CreateTS = GetInt r (sfgo ''PROC_OID_CREATETS_INT'') src,
                Hpid = GetInt r (sfgo ''PROC_OID_HPID_INT'') src\<rparr>
     in Inr (GetCachedValue r oid attr))"

definition mapOID :: "Extern \<Rightarrow> Source \<Rightarrow> Attribute list \<Rightarrow> FieldMap" where
  "mapOID e src attrs = (\<lambda>r.
     Inr (VString (Sprintf_x (xxhash_Sum e (concat (map (\<lambda>attr. FormatInt10 (GetInt r attr src)) attrs))))))"

subsection \<open>Link paths: \<^verbatim>\<open>fmt.Sscanf(orig, "%x->%x %s", &src, &dst, &targetPath)\<close>\<close>

text \<open>The scanner reads its input rune by rune. \<^verbatim>\<open>utf8.DecodeRune\<close> gives the rune at the
  head of a byte string and the number of bytes it takes; a byte that starts no well-formed
  encoding is the rune \<open>RuneError\<close> of width 1.\<close>

definition RuneError :: nat where
  "RuneError = 0xFFFD"

definition DecodeRune :: "string \<Rightarrow> nat \<times> nat" where
  "DecodeRune p =
     (case p of
        [] \<Rightarrow> (RuneError, 0)
      | c0 # p' \<Rightarrow>
          let p0 = of_char c0 :: nat in
          if p0 < 0x80 then (p0, 1)
          else if p0 < 0xC2 \<or> 0xF4 < p0 then (RuneError, 1)
          else
            let sz = (if p0 < 0xE0 then 2 else if p0 < 0xF0 then 3 else 4 :: nat);
                lo = (if p0 = 0xE0 then 0xA0 else if p0 = 0xF0 then 0x90 else 0x80 :: nat);
                hi = (if p0 = 0xED then 0x9F else if p0 = 0xF4 then 0x8F else 0xBF :: nat)
            in if length p < sz then (RuneError, 1)
               else
                 let b1 = of_char (p ! 1) :: nat in
                 if b1 < lo \<or> hi < b1 then (RuneError, 1)
                 else if sz \<le> 2 then ((p0 mod 32) * 64 + b1 mod 64, 2)
                 else
                   let b2 = of_char (p ! 2) :: nat in
                   if b2 < 0x80 \<or> 0xBF < b2 then (RuneError, 1)
                   else if sz \<le> 3 then ((p0 mod 16) * 4096 + (b1 mod 64) * 64 + b2 mod 64, 3)
                   else
                     let b3 = of_char (p ! 3) :: nat in
                     if b3 < 0x80 \<or> 0xBF < b3 then (RuneError, 1)
                     else ((p0 mod 8) * 262144 + (b1 mod 64) * 4096 + (b2 mod 64) * 64 + b3 mod 64, 4))"

lemma DecodeRune_size: "p \<noteq> [] \<Longrightarrow> 0 < snd (DecodeRune p)"
  by (cases p) (simp_all add: DecodeRune_def Let_def)

function runes :: "string \<Rightarrow> nat list" where
  "runes p = (if p = [] then [] else (case DecodeRune p of (r, sz) \<Rightarrow> r # runes (drop sz p)))"
  by pat_completeness auto
termination
proof (relation "measure length")
  show "wf (measure length)"
    by simp
next
  fix p :: string and x :: "nat \<times> nat" and r sz :: nat
  assume "p \<noteq> []" and "(r, sz) = DecodeRune p"
  then have "0 < sz"
    using DecodeRune_size [of p] by (metis snd_conv)
  with \<open>p \<noteq> []\<close> show "(drop sz p, p) \<in> measure length"
    by simp
qed

declare runes.simps [simp del]

text \<open>\<^verbatim>\<open>utf8.AppendRune\<close>: the token of \<^verbatim>\<open>%s\<close> is written rune by rune into the
  scanner's buffer.\<close>

definition AppendRune :: "nat \<Rightarrow> string" where
  "AppendRune r0 =
     (if r0 \<le> 0x7F then [char_of r0]
      else if r0 \<le> 0x7FF then [char_of (0xC0 + r0 div 64), char_of (0x80 + r0 mod 64)]
      else
        let r = (if 0x10FFFF < r0 \<or> (0xD800 \<le> r0 \<and> r0 \<le> 0xDFFF) then RuneError else r0) in
        if r \<le> 0xFFFF
        then [char_of (0xE0 + r div 4096), char_of (0x80 + (r div 64) mod 64), char_of (0x80 + r mod 64)]
        else [char_of (0xF0 + r div 262144), char_of (0x80 + (r div 4096) mod 64),
              char_of (0x80 + (r div 64) mod 64), char_of (0x80 + r mod 64)])"

text \<open>\<^verbatim>\<open>isSpace\<close> of package \<^verbatim>\<open>fmt\<close>: the table of space ranges.\<close>

definition isSpace :: "nat \<Rightarrow> bool" where
  "isSpace r =
     ((0x0009 \<le> r \<and> r \<le> 0x000D) \<or> r = 0x0020 \<or> r = 0x0085 \<or> r = 0x00A0 \<or> r = 0x1680
      \<or> (0x2000 \<le> r \<and> r \<le> 0x200A) \<or> r = 0x2028 \<or> r = 0x2029 \<or> r = 0x202F \<or> r = 0x205F
      \<or> r = 0x3000)"

text \<open>The scanner reads at most \<open>hugeWid\<close> runes: past that count \<^verbatim>\<open>ReadRune\<close> reports the
  end of the input.\<close>

definition hugeWid :: nat where
  "hugeWid = 2 ^ 30"

text \<open>\<^verbatim>\<open>SkipSpace\<close> with \<^verbatim>\<open>nlIsSpace\<close> false, on the runes still to read: a newline is
  an error (\<open>None\<close>), the first rune that is no space is left unread.\<close>

fun SkipSpace :: "nat list \<Rightarrow> nat list option" where
  "SkipSpace [] = Some []"
| "SkipSpace (r # rs) =
     (if r = 0x0D \<and> (case rs of [] \<Rightarrow> False | r' # _ \<Rightarrow> r' = 0x0A) then SkipSpace rs
      else if r = 0x0A then None
      else if \<not> isSpace r then Some (r # rs)
      else SkipSpace rs)"

definition hexadecimalDigits :: string where
  "hexadecimalDigits = ''0123456789aAbBcCdDeEfF''"

definition accept_hex :: "nat \<Rightarrow> bool" where
  "accept_hex r = (r \<in> set (map of_char hexadecimalDigits))"

text \<open>\<^verbatim>\<open>scanUint('x', 64)\<close>: spaces are skipped, the input must not be at its end, one
  hexadecimal digit at least is accepted, and the token is parsed in base 16.\<close>

definition scanUint :: "nat list \<Rightarrow> (64 word \<times> nat list) option" where
  "scanUint rs0 =
     (case SkipSpace rs0 of
        None \<Rightarrow> None
      | Some rs \<Rightarrow>
          if rs = [] then None
          else if \<not> accept_hex (hd rs) then None
          else (case ParseUint (map char_of (takeWhile accept_hex rs)) 16 of
                  Inl err \<Rightarrow> None
                | Inr i \<Rightarrow> Some (word_of_nat i, dropWhile accept_hex rs)))"

text \<open>\<^verbatim>\<open>advance\<close> on a literal of the format: the next rune of the input must be that
  literal.\<close>

definition advance_literal :: "nat \<Rightarrow> nat list \<Rightarrow> nat list option" where
  "advance_literal fmtc rs = (case rs of [] \<Rightarrow> None | inputc # rs' \<Rightarrow> if fmtc = inputc then Some rs' else None)"

text \<open>\<^verbatim>\<open>advance\<close> on the single space of the format: the end of the input, or one space at
  least and no newline first; the spaces up to a newline are consumed.\<close>

definition advance_space :: "nat list \<Rightarrow> nat list option" where
  "advance_space rs =
     (case rs of
        [] \<Rightarrow> Some []
      | inputc # rs' \<Rightarrow>
          if \<not> isSpace inputc then None
          else if inputc = 0x0A then None
          else Some (dropWhile (\<lambda>c. isSpace c \<and> c \<noteq> 0x0A) rs'))"

text \<open>\<^verbatim>\<open>convertString('s')\<close>: spaces are skipped, the input must not be at its end, and
  the token is the run of runes up to the next space.\<close>

definition convertString :: "nat list \<Rightarrow> (string \<times> nat list) option" where
  "convertString rs0 =
     (case SkipSpace rs0 of
        None \<Rightarrow> None
      | Some rs \<Rightarrow>
          if rs = [] then None
          else (case SkipSpace rs of
                  None \<Rightarrow> None
                | Some rs1 \<Rightarrow>
                    Some (concat (map AppendRune (takeWhile (\<lambda>c. \<not> isSpace c) rs1)),
                          dropWhile (\<lambda>c. \<not> isSpace c) rs1)))"

text \<open>\<^verbatim>\<open>doScanf\<close> on the format \<^verbatim>\<open>%x->%x %s\<close>: before each verb the spaces of the input
  are skipped; \<open>None\<close> is a returned error. What follows the third operand in the input is
  not read.\<close>

definition Sscanf_link :: "string \<Rightarrow> (64 word \<times> 64 word \<times> string) option" where
  "Sscanf_link str =
     (case Option.bind (SkipSpace (take hugeWid (runes str))) scanUint of
        None \<Rightarrow> None
      | Some (src, rs1) \<Rightarrow>
          (case Option.bind (advance_literal 0x2D rs1) (advance_literal 0x3E) of
             None \<Rightarrow> None
           | Some rs2 \<Rightarrow>
               (case Option.bind (SkipSpace rs2) scanUint of
                  None \<Rightarrow> None
                | Some (dst, rs3) \<Rightarrow>
                    (case Option.bind (Option.bind (advance_space rs3) SkipSpace) convertString of
                       None \<Rightarrow> None
                     | Some (targetPath, rs4) \<Rightarrow> Some (src, dst, targetPath)))))"

definition mapLinkPath :: "Source \<Rightarrow> Attribute \<Rightarrow> FieldMap" where
  "mapLinkPath src attr = (\<lambda>r.
     let orig = GetStr r attr src
     in case Sscanf_link orig of
          Some (src', dst, targetPath) \<Rightarrow> Inr (VString targetPath)
        | None \<Rightarrow> Inr (VString orig))"

text \<open>\<^verbatim>\<open>mapNa\<close> logs a warning and returns the zero string; the log is not part of the model.\<close>

definition mapNa :: "string \<Rightarrow> FieldMap" where
  "mapNa attr = (\<lambda>r. Inr (VString Zeros_String))"

subsection \<open>The registry\<close>

text \<open>The map literal of \<^verbatim>\<open>Mapper\<close>, entry by entry in the order of the source; a key is
  the Go identifier of the attribute name constant.\<close>

definition Mapper_literal :: "Extern \<Rightarrow> (string \<times> FieldMap) list" where
  "Mapper_literal e =
     [(''SF_TYPE'', mapRecType e SYSFLOW_SRC),
      (''SF_OPFLAGS'', mapOpFlags e SYSFLOW_SRC),
      (''SF_RET'', mapRet e SYSFLOW_SRC),
      (''SF_TS'', mapInt SYSFLOW_SRC (sfgo ''TS_INT'')),
      (''SF_ENDTS'', mapEndTs e SYSFLOW_SRC),
      (''SF_PROC_OID'', mapOID e SYSFLOW_SRC [sfgo ''PROC_OID_HPID_INT'', sfgo ''PROC_OID_CREATETS_INT'']),
      (''SF_PROC_PID'', mapInt SYSFLOW_SRC (sfgo ''PROC_OID_HPID_INT'')),
      (''SF_PROC_NAME'', mapName e SYSFLOW_SRC (sfgo ''PROC_EXE_STR'')),
      (''SF_PROC_EXE'', mapStr SYSFLOW_SRC (sfgo ''PROC_EXE_STR'')),
      (''SF_PROC_ARGS'', mapStr SYSFLOW_SRC (sfgo ''PROC_EXEARGS_STR'')),
      (''SF_PROC_UID'', mapInt SYSFLOW_SRC (sfgo ''PROC_UID_INT'')),
      (''SF_PROC_USER'', mapStr SYSFLOW_SRC (sfgo ''PROC_USERNAME_STR'')),
      (''SF_PROC_TID'', mapInt SYSFLOW_SRC (sfgo ''TID_INT'')),
      (''SF_PROC_GID'', mapInt SYSFLOW_SRC (sfgo ''PROC_GID_INT'')),
      (''SF_PROC_GROUP'', mapStr SYSFLOW_SRC (sfgo ''PROC_GROUPNAME_STR'')),
      (''SF_PROC_CREATETS'', mapInt SYSFLOW_SRC (sfgo ''PROC_OID_CREATETS_INT'')),
      (''SF_PROC_TTY'', mapInt SYSFLOW_SRC (sfgo ''PROC_TTY_INT'')),
      (''SF_PROC_ENTRY'', mapEntry SYSFLOW_SRC (sfgo ''PROC_ENTRY_INT'')),
      (''SF_PROC_CMDLINE'', mapJoin SYSFLOW_SRC [sfgo ''PROC_EXE_STR'', sfgo ''PROC_EXEARGS_STR'']),
      (''SF_PROC_ANAME'', mapCachedValue SYSFLOW_SRC ProcAName),
      (''SF_PROC_AEXE'', mapCachedValue SYSFLOW_SRC ProcAExe),
      (''SF_PROC_ACMDLINE'', mapCachedValue SYSFLOW_SRC ProcACmdLine),
      (''SF_PROC_APID'', mapCachedValue SYSFLOW_SRC ProcAPID),
      (''SF_PPROC_OID'', mapOID e SYSFLOW_SRC [sfgo ''PROC_POID_HPID_INT'', sfgo ''PROC_POID_CREATETS_INT'']),
      (''SF_PPROC_PID'', mapInt SYSFLOW_SRC (sfgo ''PROC_POID_HPID_INT'')),
      (''SF_PPROC_NAME'', mapCachedValue SYSFLOW_SRC PProcName),
      (''SF_PPROC_EXE'', mapCachedValue SYSFLOW_SRC PProcExe),
      (''SF_PPROC_ARGS'', mapCachedValue SYSFLOW_SRC PProcArgs),
      (''SF_PPROC_UID'', mapCachedValue SYSFLOW_SRC PProcUID),
      (''SF_PPROC_USER'', mapCachedValue SYSFLOW_SRC PProcUser),
      (''SF_PPROC_GID'', mapCachedValue SYSFLOW_SRC PProcGID),
      (''SF_PPROC_GROUP'', mapCachedValue SYSFLOW_SRC PProcGroup),
      (''SF_PPROC_CREATETS'', mapInt SYSFLOW_SRC (sfgo ''PROC_POID_CREATETS_INT'')),
      (''SF_PPROC_TTY'', mapCachedValue SYSFLOW_SRC PProcTTY),
      (''SF_PPROC_ENTRY'', mapCachedValue SYSFLOW_SRC PProcEntry),
      (''SF_PPROC_CMDLINE'', mapCachedValue SYSFLOW_SRC PProcCmdLine),
      (''SF_FILE_NAME'', mapName e SYSFLOW_SRC (sfgo ''FILE_PATH_STR'')),
      (''SF_FILE_PATH'', mapStr SYSFLOW_SRC (sfgo ''FILE_PATH_STR'')),
      (''SF_FILE_CANONICALPATH'', mapLinkPath SYSFLOW_SRC (sfgo ''FILE_PATH_STR'')),
      (''SF_FILE_OID'', mapOID e SYSFLOW_SRC [sfgo ''FILE_PATH_STR'']),
      (''SF_FILE_DIRECTORY'', mapDir e SYSFLOW_SRC (sfgo ''FILE_PATH_STR'')),
      (''SF_FILE_NEWNAME'', mapName e SYSFLOW_SRC (sfgo ''SEC_FILE_PATH_STR'')),
      (''SF_FILE_NEWPATH'', mapStr SYSFLOW_SRC (sfgo ''SEC_FILE_PATH_STR'')),
      (''SF_FILE_NEWCANONICALPATH'', mapLinkPath SYSFLOW_SRC (sfgo ''SEC_FILE_PATH_STR'')),
      (''SF_FILE_NEWOID'', mapOID e SYSFLOW_SRC [sfgo ''SEC_FILE_PATH_STR'']),
      (''SF_FILE_NEWDIRECTORY'', mapDir e SYSFLOW_SRC (sfgo ''SEC_FILE_PATH_STR'')),
      (''SF_FILE_TYPE'', mapFileType e SYSFLOW_SRC (sfgo ''FILE_RESTYPE_INT'')),
      (''SF_FILE_IS_OPEN_WRITE'', mapIsOpenWrite e SYSFLOW_SRC (sfgo ''FL_FILE_OPENFLAGS_INT'')),
      (''SF_FILE_IS_OPEN_READ'', mapIsOpenRead e SYSFLOW_SRC (sfgo ''FL_FILE_OPENFLAGS_INT'')),
      (''SF_FILE_FD'', mapInt SYSFLOW_SRC (sfgo ''FL_FILE_FD_INT'')),
      (''SF_FILE_OPENFLAGS'', mapOpenFlags e SYSFLOW_SRC (sfgo ''FL_FILE_OPENFLAGS_INT'')),
      (''SF_NET_PROTO'', mapInt SYSFLOW_SRC (sfgo ''FL_NETW_PROTO_INT'')),
      (''SF_NET_PROTONAME'', mapProto SYSFLOW_SRC (sfgo ''FL_NETW_PROTO_INT'')),
      (''SF_NET_SPORT'', mapInt SYSFLOW_SRC (sfgo ''FL_NETW_SPORT_INT'')),
      (''SF_NET_DPORT'', mapInt SYSFLOW_SRC (sfgo ''FL_NETW_DPORT_INT'')),
      (''SF_NET_PORT'', mapPort e SYSFLOW_SRC [sfgo ''FL_NETW_SPORT_INT'', sfgo ''FL_NETW_DPORT_INT'']),
      (''SF_NET_SIP'', mapIP e SYSFLOW_SRC [sfgo ''FL_NETW_SIP_INT'']),
      (''SF_NET_DIP'', mapIP e SYSFLOW_SRC [sfgo ''FL_NETW_DIP_INT'']),
      (''SF_NET_IP'', mapIP e SYSFLOW_SRC [sfgo ''FL_NETW_SIP_INT'', sfgo ''FL_NETW_DIP_INT'']),
      (''SF_FLOW_RBYTES'', mapSum SYSFLOW_SRC [sfgo ''FL_FILE_NUMRRECVBYTES_INT'', sfgo ''FL_NETW_NUMRRECVBYTES_INT'']),
      (''SF_FLOW_ROPS'', mapSum SYSFLOW_SRC [sfgo ''FL_FILE_NUMRRECVOPS_INT'', sfgo ''FL_NETW_NUMRRECVOPS_INT'']),
      (''SF_FLOW_WBYTES'', mapSum SYSFLOW_SRC [sfgo ''FL_FILE_NUMWSENDBYTES_INT'', sfgo ''FL_NETW_NUMWSENDBYTES_INT'']),
      (''SF_FLOW_WOPS'', mapSum SYSFLOW_SRC [sfgo ''FL_FILE_NUMWSENDOPS_INT'', sfgo ''FL_NETW_NUMWSENDOPS_INT'']),
      (''SF_CONTAINER_ID'', mapStr SYSFLOW_SRC (sfgo ''CONT_ID_STR'')),
      (''SF_CONTAINER_NAME'', mapStr SYSFLOW_SRC (sfgo ''CONT_NAME_STR'')),
      (''SF_CONTAINER_IMAGEID'', mapStr SYSFLOW_SRC (sfgo ''CONT_IMAGEID_STR'')),
      (''SF_CONTAINER_IMAGE'', mapStr SYSFLOW_SRC (sfgo ''CONT_IMAGE_STR'')),
      (''SF_CONTAINER_TYPE'', mapContType e SYSFLOW_SRC (sfgo ''CONT_TYPE_INT'')),
      (''SF_CONTAINER_PRIVILEGED'', mapInt SYSFLOW_SRC (sfgo ''CONT_PRIVILEGED_INT'')),
      (''SF_NODE_ID'', mapStr SYSFLOW_SRC (sfgo ''SFHE_EXPORTER_STR'')),
      (''SF_NODE_IP'', mapStr SYSFLOW_SRC (sfgo ''SFHE_IP_STR'')),
      (''SF_SCHEMA_VERSION'', mapInt SYSFLOW_SRC (sfgo ''SFHE_VERSION_INT'')),
      (''EXT_PROC_GUID_STR'', mapStr PROCESS_SRC (flattener ''PROC_GUID_STR'')),
      (''EXT_PROC_IMAGE_STR'', mapStr PROCESS_SRC (flattener ''PROC_IMAGE_STR'')),
      (''EXT_PROC_CURR_DIRECTORY_STR'', mapDir e PROCESS_SRC (flattener ''PROC_CURR_DIRECTORY_STR'')),
      (''EXT_PROC_LOGON_GUID_STR'', mapStr PROCESS_SRC (flattener ''PROC_LOGON_GUID_STR'')),
      (''EXT_PROC_LOGON_ID_STR'', mapStr PROCESS_SRC (flattener ''PROC_LOGON_ID_STR'')),
      (''EXT_PROC_TERMINAL_SESSION_ID_STR'', mapStr PROCESS_SRC (flattener ''PROC_TERMINAL_SESSION_ID_STR'')),
      (''EXT_PROC_INTEGRITY_LEVEL_STR'', mapStr PROCESS_SRC (flattener ''PROC_INTEGRITY_LEVEL_STR'')),
      (''EXT_PROC_SIGNATURE_STR'', mapStr PROCESS_SRC (flattener ''PROC_SIGNATURE_STR'')),
      (''EXT_PROC_SIGNATURE_STATUS_STR'', mapStr PROCESS_SRC (flattener ''PROC_SIGNATURE_STATUS_STR'')),
      (''EXT_PROC_SHA1_HASH_STR'', mapStr PROCESS_SRC (flattener ''PROC_SHA1_HASH_STR'')),
      (''EXT_PROC_MD5_HASH_STR'', mapStr PROCESS_SRC (flattener ''PROC_MD5_HASH_STR'')),
      (''EXT_PROC_SHA256_HASH_STR'', mapStr PROCESS_SRC (flattener ''PROC_SHA256_HASH_STR'')),
      (''EXT_PROC_IMP_HASH_STR'', mapStr PROCESS_SRC (flattener ''PROC_IMP_HASH_STR'')),
      (''EXT_PROC_SIGNED_INT'', mapInt PROCESS_SRC (flattener ''PROC_SIGNED_INT'')),
      (''EXT_FILE_SIGNATURE_STR'', mapStr FILE_SRC (flattener ''FILE_SIGNATURE_STR'')),
      (''EXT_FILE_SIGNATURE_STATUS_STR'', mapStr FILE_SRC (flattener ''FILE_SIGNATURE_STATUS_STR'')),
      (''EXT_FILE_SHA1_HASH_STR'', mapStr FILE_SRC (flattener ''FILE_SHA1_HASH_STR'')),
      (''EXT_FILE_MD5_HASH_STR'', mapStr FILE_SRC (flattener ''FILE_MD5_HASH_STR'')),
      (''EXT_FILE_SHA256_HASH_STR'', mapStr FILE_SRC (flattener ''FILE_SHA256_HASH_STR'')),
      (''EXT_FILE_IMP_HASH_STR'', mapStr FILE_SRC (flattener ''FILE_IMP_HASH_STR'')),
      (''EXT_FILE_SIGNED_INT'', mapInt FILE_SRC (flattener ''FILE_SIGNED_INT'')),
      (''EXT_NET_SOURCE_HOST_NAME_STR'', mapStr NETWORK_SRC (flattener ''NET_SOURCE_HOST_NAME_STR'')),
      (''EXT_NET_SOURCE_PORT_NAME_STR'', mapStr NETWORK_SRC (flattener ''NET_SOURCE_PORT_NAME_STR'')),
      (''EXT_NET_DEST_HOST_NAME_STR'', mapStr NETWORK_SRC (flattener ''NET_DEST_HOST_NAME_STR'')),
      (''EXT_NET_DEST_PORT_NAME_STR'', mapStr NETWORK_SRC (flattener ''NET_DEST_PORT_NAME_STR'')),
      (''EXT_TARG_PROC_OID_CREATETS_INT'', mapInt TARG_PROC_SRC (flattener ''EVT_TARG_PROC_OID_CREATETS_INT'')),
      (''EXT_TARG_PROC_OID_HPID_INT'', mapInt TARG_PROC_SRC (flattener ''EVT_TARG_PROC_OID_HPID_INT'')),
      (''EXT_TARG_PROC_TS_INT'', mapInt TARG_PROC_SRC (flattener ''EVT_TARG_PROC_TS_INT'')),
      (''EXT_TARG_PROC_POID_CREATETS_INT'', mapInt TARG_PROC_SRC (flattener ''EVT_TARG_PROC_POID_CREATETS_INT'')),
      (''EXT_TARG_PROC_POID_HPID_INT'', mapInt TARG_PROC_SRC (flattener ''EVT_TARG_PROC_POID_HPID_INT'')),
      (''EXT_TARG_PROC_EXE_STR'', mapStr TARG_PROC_SRC (flattener ''EVT_TARG_PROC_EXE_STR'')),
      (''EXT_TARG_PROC_EXEARGS_STR'', mapStr TARG_PROC_SRC (flattener ''EVT_TARG_PROC_EXEARGS_STR'')),
      (''EXT_TARG_PROC_UID_INT'', mapInt TARG_PROC_SRC (flattener ''EVT_TARG_PROC_UID_INT'')),
      (''EXT_TARG_PROC_GID_INT'', mapInt TARG_PROC_SRC (flattener ''EVT_TARG_PROC_GID_INT'')),
      (''EXT_TARG_PROC_USERNAME_STR'', mapStr TARG_PROC_SRC (flattener ''EVT_TARG_PROC_USERNAME_STR'')),
      (''EXT_TARG_PROC_GROUPNAME_STR'', mapStr TARG_PROC_SRC (flattener ''EVT_TARG_PROC_GROUPNAME_STR'')),
      (''EXT_TARG_PROC_TTY_INT'', mapInt TARG_PROC_SRC (flattener ''EVT_TARG_PROC_TTY_INT'')),
      (''EXT_TARG_PROC_CONTAINERID_STRING_STR'', mapStr TARG_PROC_SRC (flattener ''EVT_TARG_PROC_CONTAINERID_STRING_STR'')),
      (''EXT_TARG_PROC_ENTRY_INT'', mapEntry TARG_PROC_SRC (flattener ''EVT_TARG_PROC_ENTRY_INT'')),
      (''EXT_TARG_PROC_GUID_STR'', mapStr TARG_PROC_SRC (flattener ''EVT_TARG_PROC_GUID_STR'')),
      (''EXT_TARG_PROC_IMAGE_STR'', mapStr TARG_PROC_SRC (flattener ''EVT_TARG_PROC_IMAGE_STR'')),
      (''EXT_TARG_PROC_CURR_DIRECTORY_STR'', mapDir e TARG_PROC_SRC (flattener ''EVT_TARG_PROC_CURR_DIRECTORY_STR'')),
      (''EXT_TARG_PROC_LOGON_GUID_STR'', mapStr TARG_PROC_SRC (flattener ''EVT_TARG_PROC_LOGON_GUID_STR'')),
      (''EXT_TARG_PROC_LOGON_ID_STR'', mapStr TARG_PROC_SRC (flattener ''EVT_TARG_PROC_LOGON_ID_STR'')),
      (''EXT_TARG_PROC_TERMINAL_SESSION_ID_STR'', mapStr TARG_PROC_SRC (flattener ''EVT_TARG_PROC_TERMINAL_SESSION_ID_STR'')),
      (''EXT_TARG_PROC_INTEGRITY_LEVEL_STR'', mapStr TARG_PROC_SRC (flattener ''EVT_TARG_PROC_INTEGRITY_LEVEL_STR'')),
      (''EXT_TARG_PROC_SIGNATURE_STR'', mapStr TARG_PROC_SRC (flattener ''EVT_TARG_PROC_SIGNATURE_STR'')),
      (''EXT_TARG_PROC_SIGNATURE_STATUS_STR'', mapStr TARG_PROC_SRC (flattener ''EVT_TARG_PROC_SIGNATURE_STATUS_STR'')),
      (''EXT_TARG_PROC_SHA1_HASH_STR'', mapStr TARG_PROC_SRC (flattener ''EVT_TARG_PROC_SHA1_HASH_STR'')),
      (''EXT_TARG_PROC_MD5_HASH_STR'', mapStr TARG_PROC_SRC (flattener ''EVT_TARG_PROC_MD5_HASH_STR'')),
      (''EXT_TARG_PROC_SHA256_HASH_STR'', mapStr TARG_PROC_SRC (flattener ''EVT_TARG_PROC_SHA256_HASH_STR'')),
      (''EXT_TARG_PROC_IMP_HASH_STR'', mapStr TARG_PROC_SRC (flattener ''EVT_TARG_PROC_IMP_HASH_STR'')),
      (''EXT_TARG_PROC_SIGNED_INT'', mapInt TARG_PROC_SRC (flattener ''EVT_TARG_PROC_SIGNED_INT'')),
      (''EXT_TARG_PROC_START_ADDR_STR'', mapStr TARG_PROC_SRC (flattener ''EVT_TARG_PROC_START_ADDR_STR'')),
      (''EXT_TARG_PROC_START_MODULE_STR'', mapStr TARG_PROC_SRC (flattener ''EVT_TARG_PROC_START_MODULE_STR'')),
      (''EXT_TARG_PROC_START_FUNCTION_STR'', mapStr TARG_PROC_SRC (flattener ''EVT_TARG_PROC_START_FUNCTION_STR'')),
      (''EXT_TARG_PROC_GRANT_ACCESS_STR'', mapStr TARG_PROC_SRC (flattener ''EVT_TARG_PROC_GRANT_ACCESS_STR'')),
      (''EXT_TARG_PROC_CALL_TRACE_STR'', mapStr TARG_PROC_SRC (flattener ''EVT_TARG_PROC_CALL_TRACE_STR'')),
      (''EXT_TARG_PROC_ACCESS_TYPE_STR'', mapStr TARG_PROC_SRC (flattener ''EVT_TARG_PROC_ACCESS_TYPE_STR'')),
      (''EXT_TARG_PROC_NEW_THREAD_ID_INT'', mapInt TARG_PROC_SRC (flattener ''EVT_TARG_PROC_NEW_THREAD_ID_INT''))]"

text \<open>The keys of a Go map literal are distinct constants (a repeated one does not compile), so
  the map is the lookup in the list of the entries under the values of their keys.\<close>

definition Mapper :: "Extern \<Rightarrow> FieldMapper" where
  "Mapper e = \<lparr>Mappers = map_of (map (\<lambda>(k, f). (attr_name e k, f)) (Mapper_literal e))\<rparr>"

subsection \<open>The sorted enumeration of the names\<close>

text \<open>\<^verbatim>\<open>strings.Split(s, sep)\<close> for a separator of one byte, and \<^verbatim>\<open>strings.Compare\<close>.\<close>

fun Split :: "string \<Rightarrow> char \<Rightarrow> string list" where
  "Split [] sep = [[]]"
| "Split (c # cs) sep =
     (if c = sep then [] # Split cs sep
      else (case Split cs sep of [] \<Rightarrow> [[c]] | x # xs \<Rightarrow> (c # x) # xs))"

fun Compare :: "string \<Rightarrow> string \<Rightarrow> int" where
  "Compare [] [] = 0"
| "Compare [] (y # ys) = - 1"
| "Compare (x # xs) [] = 1"
| "Compare (x # xs) (y # ys) =
     (if (of_char x :: nat) < of_char y then - 1
      else if (of_char y :: nat) < of_char x then 1
      else Compare xs ys)"

text \<open>The comparison function \<^verbatim>\<open>getFields\<close> passes to \<^verbatim>\<open>sort.SliceStable\<close>.\<close>

definition keys_less :: "string \<Rightarrow> string \<Rightarrow> bool" where
  "keys_less a b =
     (let ki = length (Split a (CHR ''.'')); kj = length (Split b (CHR ''.''))
      in if ki = kj then Compare a b < 0 else ki < kj)"

text \<open>\<^verbatim>\<open>sort.SliceStable\<close>, as the stable insertion sort: an element is put before the first
  element of the sorted rest that is not less than it.\<close>

fun insert_stable :: "('a \<Rightarrow> 'a \<Rightarrow> bool) \<Rightarrow> 'a \<Rightarrow> 'a list \<Rightarrow> 'a list" where
  "insert_stable lt x [] = [x]"
| "insert_stable lt x (y # ys) =
     (if lt y x then y # insert_stable lt x ys else x # y # ys)"

fun SliceStable :: "('a \<Rightarrow> 'a \<Rightarrow> bool) \<Rightarrow> 'a list \<Rightarrow> 'a list" where
  "SliceStable lt [] = []"
| "SliceStable lt (x # xs) = insert_stable lt x (SliceStable lt xs)"

text \<open>\<^verbatim>\<open>getFields\<close>: \<open>keys\<close> is the slice the range loop over \<^verbatim>\<open>Mapper.Mappers\<close> fills, the
  keys of the map in the order the run time visits them.\<close>

definition getFields :: "string list \<Rightarrow> string list" where
  "getFields keys = SliceStable keys_less keys"

section \<open>Notions of the specification\<close>

text \<open>An extractor returns when no record makes it panic.\<close>

definition returns :: "FieldMap \<Rightarrow> bool" where
  "returns f = (\<forall>r. \<exists>v. f r = Inr v)"

text \<open>Removing one leading and one trailing quote character, as the specification words the
  string coercion.\<close>

definition strip_leading_quote :: "string \<Rightarrow> string" where
  "strip_leading_quote s = (case s of [] \<Rightarrow> [] | c # cs \<Rightarrow> if c \<in> quote_chars then cs else s)"

definition strip_trailing_quote :: "string \<Rightarrow> string" where
  "strip_trailing_quote s = (if s \<noteq> [] \<and> last s \<in> quote_chars then butlast s else s)"

text \<open>A 64-bit signed decimal literal: an optional sign, one decimal digit at least and
  nothing else, of a value from \<open>-2^63\<close> to \<open>2^63 - 1\<close>. \<open>int64_literal\<close> is the value of
  such a literal and \<open>None\<close> for every other string.\<close>

definition is_digit :: "char \<Rightarrow> bool" where
  "is_digit c = (CHR ''0'' \<le> c \<and> c \<le> CHR ''9'')"

definition decimal_value :: "string \<Rightarrow> nat" where
  "decimal_value ds = foldl (\<lambda>n c. 10 * n + (of_char c - 48)) 0 ds"

definition int64_literal :: "string \<Rightarrow> int option" where
  "int64_literal s =
     (let neg = (s \<noteq> [] \<and> hd s = CHR ''-'');
          ds = (if s \<noteq> [] \<and> (hd s = CHR ''-'' \<or> hd s = CHR ''+'') then tl s else s);
          v = (if neg then - int (decimal_value ds) else int (decimal_value ds))
      in if ds \<noteq> [] \<and> list_all is_digit ds \<and> - (2 ^ 63) \<le> v \<and> v < 2 ^ 63 then Some v else None)"

text \<open>The order of the enumeration, as the specification words it: fewer dot-separated
  segments first, and among names of as many segments the lexicographically smaller (byte
  by byte) first.\<close>

definition segment_count :: "string \<Rightarrow> nat" where
  "segment_count s = Suc (count_list s (CHR ''.''))"

definition name_before :: "string \<Rightarrow> string \<Rightarrow> bool" where
  "name_before a b =
     (segment_count a < segment_count b \<or> (segment_count a = segment_count b \<and> a < b))"

section \<open>Properties\<close>

subsection \<open>Evaluation of the library functions\<close>

lemma digits10_small: "n < 10 \<Longrightarrow> digits10 n = [''0123456789'' ! n]"
  by (simp add: digits10.simps)

lemma digits10_large: "10 \<le> n \<Longrightarrow> digits10 n = digits10 (n div 10) @ [''0123456789'' ! (n mod 10)]"
  by (subst digits10.simps) simp

lemma runes_Nil: "runes [] = []"
  by (simp add: runes.simps)

lemma runes_ascii_Cons: "(of_char c :: nat) < 128 \<Longrightarrow> runes (c # cs) = of_char c # runes cs"
  by (subst runes.simps) (simp add: DecodeRune_def)

lemma take_hugeWid: "length xs \<le> 1073741824 \<Longrightarrow> take hugeWid xs = xs"
  by (simp add: hugeWid_def)

lemmas scan_defs =
  Sscanf_link_def runes_Nil runes_ascii_Cons take_hugeWid scanUint_def accept_hex_def
  hexadecimalDigits_def isSpace_def ParseUint_def digit_of_def lower_def maxUint64_def
  advance_literal_def advance_space_def convertString_def AppendRune_def char_of_eq_iff

subsection \<open>Every extractor of the registry returns\<close>

lemma returns_factories [simp]:
  "returns (mapStr src a)"
  "returns (mapInt src a)"
  "returns (mapSum src as)"
  "returns (mapRecType e src)"
  "returns (mapOpFlags e src)"
  "returns (mapRet e src)"
  "returns (mapEndTs e src)"
  "returns (mapEntry src a)"
  "returns (mapName e src a)"
  "returns (mapDir e src a)"
  "returns (mapLinkPath src a)"
  "returns (mapFileType e src a)"
  "returns (mapIsOpenWrite e src a)"
  "returns (mapIsOpenRead e src a)"
  "returns (mapOpenFlags e src a)"
  "returns (mapProto src a)"
  "returns (mapPort e src as)"
  "returns (mapIP e src as)"
  "returns (mapContType e src a)"
  "returns (mapCachedValue src ra)"
  "returns (mapOID e src as)"
  by (simp_all add: returns_def mapStr_def mapInt_def mapSum_def mapRecType_def mapOpFlags_def
      mapRet_def mapEndTs_def mapEntry_def mapName_def mapDir_def mapLinkPath_def
      mapFileType_def mapIsOpenWrite_def mapIsOpenRead_def mapOpenFlags_def mapProto_def
      mapPort_def mapIP_def mapContType_def mapCachedValue_def mapOID_def Let_def
      split: option.split prod.split)

lemma returns_mapJoin [simp]: "returns (mapJoin src as) \<longleftrightarrow> as \<noteq> []"
  by (cases as) (simp_all add: returns_def mapJoin_def)

lemma Mapper_literal_returns: "list_all returns (map snd (Mapper_literal e))"
  by (simp add: Mapper_literal_def)

lemma Mapper_returns:
  assumes "Mappers (Mapper e) attr = Some f"
  shows "returns f"
proof -
  from assms have "(attr, f) \<in> set (map (\<lambda>(k, f). (attr_name e k, f)) (Mapper_literal e))"
    by (auto simp: Mapper_def dest: map_of_SomeD)
  then have "f \<in> set (map snd (Mapper_literal e))"
    by force
  with Mapper_literal_returns [of e] show ?thesis
    by (auto simp: list_all_iff)
qed

lemma Map_Mapper_returns: "\<exists>v. Map (Mapper e) attr r = Inr v"
proof (cases "Mappers (Mapper e) attr")
  case None
  then show ?thesis by (simp add: Map_def)
next
  case (Some f)
  then have "returns f" by (rule Mapper_returns)
  with Some show ?thesis by (simp add: Map_def returns_def)
qed

subsection \<open>Resolution of a name\<close>

text \<open>
  Claim C1. For a name that is not a key of the mapper table, \<open>Map\<close> returns an extractor
  that yields the name itself, as a string, on every record; for a registered name it
  returns the registered extractor. The lookup has no other outcome: no name makes the
  resolution itself fail.
\<close>

theorem Map_unregistered_is_name:
  "(attr \<notin> dom (Mappers m) \<longrightarrow> Map m attr r = Inr (VString attr)) \<and>
   (\<forall>f. Mappers m attr = Some f \<longrightarrow> Map m attr = f)"
  by (cases "Mappers m attr") (auto simp: Map_def)

theorem Map_unregistered_is_name_witness:
  "''proc.unknown'' \<notin> dom (Mappers \<lparr>Mappers = [''sf.ts'' \<mapsto> mapInt SYSFLOW_SRC (sfgo ''TS_INT'')]\<rparr>) \<and>
   Map \<lparr>Mappers = [''sf.ts'' \<mapsto> mapInt SYSFLOW_SRC (sfgo ''TS_INT'')]\<rparr> ''proc.unknown''
     \<lparr>GetStr = \<lambda>a s. [], GetInt = \<lambda>a s. 0, GetCachedValue = \<lambda>oid a. VOther\<rparr>
     = Inr (VString ''proc.unknown'') \<and>
   Mappers \<lparr>Mappers = [''sf.ts'' \<mapsto> mapInt SYSFLOW_SRC (sfgo ''TS_INT'')]\<rparr> ''sf.ts''
     = Some (mapInt SYSFLOW_SRC (sfgo ''TS_INT'')) \<and>
   Map \<lparr>Mappers = [''sf.ts'' \<mapsto> mapInt SYSFLOW_SRC (sfgo ''TS_INT'')]\<rparr> ''sf.ts''
     = mapInt SYSFLOW_SRC (sfgo ''TS_INT'')"
  using Map_unregistered_is_name
    [of "''proc.unknown''" "\<lparr>Mappers = [''sf.ts'' \<mapsto> mapInt SYSFLOW_SRC (sfgo ''TS_INT'')]\<rparr>"
        "\<lparr>GetStr = \<lambda>a s. [], GetInt = \<lambda>a s. 0, GetCachedValue = \<lambda>oid a. VOther\<rparr>"]
    Map_unregistered_is_name
    [of "''sf.ts''" "\<lparr>Mappers = [''sf.ts'' \<mapsto> mapInt SYSFLOW_SRC (sfgo ''TS_INT'')]\<rparr>"]
  by simp

subsection \<open>Trimming of the bounding quotes\<close>

lemma trimBoundingQuotes_decomp:
  "\<exists>a b. s = a @ trimBoundingQuotes s @ b \<and> length a \<le> 1 \<and> length b \<le> 1 \<and>
         set a \<subseteq> quote_chars \<and> set b \<subseteq> quote_chars"
proof -
  define s1 where "s1 = (if length s > 0 \<and> (s ! 0 = CHR 0x22 \<or> s ! 0 = CHR 0x27) then drop 1 s else s)"
  define a where "a = (if length s > 0 \<and> (s ! 0 = CHR 0x22 \<or> s ! 0 = CHR 0x27) then take 1 s else [])"
  define t where "t = (if length s1 > 0 \<and> (s1 ! (length s1 - 1) = CHR 0x22 \<or> s1 ! (length s1 - 1) = CHR 0x27)
                       then take (length s1 - 1) s1 else s1)"
  define b where "b = (if length s1 > 0 \<and> (s1 ! (length s1 - 1) = CHR 0x22 \<or> s1 ! (length s1 - 1) = CHR 0x27)
                       then drop (length s1 - 1) s1 else [])"
  have t: "trimBoundingQuotes s = t"
    by (simp add: trimBoundingQuotes_def t_def s1_def Let_def)
  have s: "s = a @ s1"
    by (simp add: a_def s1_def)
  have s1: "s1 = t @ b"
    by (simp add: t_def b_def)
  have a: "length a \<le> 1 \<and> set a \<subseteq> quote_chars"
    by (cases s) (auto simp: a_def quote_chars_def)
  have b: "length b \<le> 1 \<and> set b \<subseteq> quote_chars"
  proof (cases "length s1 > 0 \<and> (s1 ! (length s1 - 1) = CHR 0x22 \<or> s1 ! (length s1 - 1) = CHR 0x27)")
    case True
    then have "b = [s1 ! (length s1 - 1)]"
      using Cons_nth_drop_Suc [of "length s1 - 1" s1] by (simp add: b_def)
    with True show ?thesis
      by (auto simp: quote_chars_def)
  next
    case False
    then have "b = []"
      unfolding b_def by (simp only: if_False)
    then show ?thesis
      by simp
  qed
  from s s1 t a b show ?thesis
    by (intro exI [of _ a] exI [of _ b]) simp
qed

text \<open>
  Claim C10. \<open>trimBoundingQuotes\<close> removes one leading quote at most and then, from what is
  left and only if that is not empty, one trailing quote at most: the input is the result
  between a prefix and a suffix of at most one quote character each, so no character is
  removed twice. A string of one quote character gives the empty string, and the result is
  shorter than the input by two at most.
\<close>

theorem trimBoundingQuotes_never_twice:
  "trimBoundingQuotes [CHR 0x22] = [] \<and> trimBoundingQuotes [CHR 0x27] = [] \<and>
   int (length s) - 2 \<le> int (length (trimBoundingQuotes s)) \<and>
   0 \<le> int (length (trimBoundingQuotes s)) \<and>
   length (trimBoundingQuotes s) \<le> length s \<and>
   (\<exists>a b. s = a @ trimBoundingQuotes s @ b \<and> length a \<le> 1 \<and> length b \<le> 1 \<and>
          set a \<subseteq> quote_chars \<and> set b \<subseteq> quote_chars)"
proof -
  obtain a b where ab: "s = a @ trimBoundingQuotes s @ b" "length a \<le> 1" "length b \<le> 1"
      "set a \<subseteq> quote_chars" "set b \<subseteq> quote_chars"
    using trimBoundingQuotes_decomp [of s] by blast
  have "length s = length a + length (trimBoundingQuotes s) + length b"
    by (subst ab(1)) simp
  with ab(2,3) have "int (length s) - 2 \<le> int (length (trimBoundingQuotes s))"
    and "length (trimBoundingQuotes s) \<le> length s"
    by linarith+
  moreover have "trimBoundingQuotes [CHR 0x22] = []" "trimBoundingQuotes [CHR 0x27] = []"
    by (simp_all add: trimBoundingQuotes_def)
  ultimately show ?thesis
    using trimBoundingQuotes_decomp [of s] by simp
qed

subsection \<open>The return code\<close>

text \<open>
  Claim C7. \<open>mapRet\<close> returns the record's return-code field when the record's type field
  is the process-event code or the file-event code, and the zero integer for every other
  type.
\<close>

theorem mapRet_only_for_events:
  "mapRet e src r =
     Inr (VInt64 (if GetInt r (sfgo ''SF_REC_TYPE'') src \<in> {PROC_EVT e, FILE_EVT e}
                  then GetInt r (sfgo ''RET_INT'') src else 0))"
  by (simp add: mapRet_def Let_def Zeros_Int64_def)

subsection \<open>The sum of integer fields\<close>

lemma mapSum_loop_eq:
  "mapSum_loop r src acc attrs = acc + sum_list (map (\<lambda>a. GetInt r a src) attrs)"
  by (induction attrs arbitrary: acc) (simp_all add: add.assoc)

text \<open>
  Claim C8. \<open>mapSum\<close> returns the sum of the record's integer values of the listed fields,
  in 64-bit wrapping arithmetic: for two fields it is the one value plus the other, and as
  a signed number it is the sum of the two signed values wrapped to 64 bits, whatever
  their signs.
\<close>

theorem mapSum_is_sum:
  "mapSum src attrs r = Inr (VInt64 (sum_list (map (\<lambda>a. GetInt r a src) attrs))) \<and>
   mapSum src [a, b] r = Inr (VInt64 (GetInt r a src + GetInt r b src)) \<and>
   (\<exists>v. mapSum src [a, b] r = Inr (VInt64 v) \<and>
        sint v = signed_take_bit 63 (sint (GetInt r a src) + sint (GetInt r b src)))"
  by (simp add: mapSum_def mapSum_loop_eq sint_word_ariths)

subsection \<open>The join of string fields\<close>

lemma mapJoin_loop_eq:
  "mapJoin_loop r src join attrs = join @ concat (map (\<lambda>a. '' '' @ GetStr r a src) attrs)"
  by (induction attrs arbitrary: join) (simp_all add: SPACE_def)

text \<open>
  Claim C9. \<open>mapJoin\<close> reads the first element of its field list with no check, so its
  extractor returns exactly when the list is not empty (on the empty list the index is out
  of range). On a list that is not empty it returns, for every record, the first field's
  string followed by each further field's string after one space, in the order of the
  list. The registry binds \<open>mapJoin\<close> under the command-line name, to the two fields of
  the executable and of its arguments, and every extractor of the registry returns.
\<close>

theorem mapJoin_total_iff_nonempty:
  "(attrs \<noteq> [] \<longrightarrow>
      mapJoin src attrs r =
        Inr (VString (GetStr r (hd attrs) src @ concat (map (\<lambda>a. '' '' @ GetStr r a src) (tl attrs))))) \<and>
   mapJoin src [] r = Inl IndexOutOfRange \<and>
   ((\<exists>v. mapJoin src attrs r = Inr v) \<longleftrightarrow> attrs \<noteq> []) \<and>
   map_of (Mapper_literal e) ''SF_PROC_CMDLINE''
     = Some (mapJoin SYSFLOW_SRC [sfgo ''PROC_EXE_STR'', sfgo ''PROC_EXEARGS_STR'']) \<and>
   mapJoin SYSFLOW_SRC [sfgo ''PROC_EXE_STR'', sfgo ''PROC_EXEARGS_STR''] r
     = Inr (VString (GetStr r (sfgo ''PROC_EXE_STR'') SYSFLOW_SRC @ '' '' @
                     GetStr r (sfgo ''PROC_EXEARGS_STR'') SYSFLOW_SRC)) \<and>
   list_all returns (map snd (Mapper_literal e))"
proof -
  have "map_of (Mapper_literal e) ''SF_PROC_CMDLINE''
     = Some (mapJoin SYSFLOW_SRC [sfgo ''PROC_EXE_STR'', sfgo ''PROC_EXEARGS_STR''])"
    by (simp add: Mapper_literal_def)
  moreover have "(\<exists>v. mapJoin src attrs r = Inr v) \<longleftrightarrow> attrs \<noteq> []"
    by (cases attrs) (simp_all add: mapJoin_def)
  moreover have "attrs \<noteq> [] \<longrightarrow>
      mapJoin src attrs r =
        Inr (VString (GetStr r (hd attrs) src @ concat (map (\<lambda>a. '' '' @ GetStr r a src) (tl attrs))))"
    by (cases attrs) (simp_all add: mapJoin_def mapJoin_loop_eq)
  moreover have "mapJoin src [] r = Inl IndexOutOfRange"
    by (simp add: mapJoin_def)
  moreover have "mapJoin SYSFLOW_SRC [sfgo ''PROC_EXE_STR'', sfgo ''PROC_EXEARGS_STR''] r
     = Inr (VString (GetStr r (sfgo ''PROC_EXE_STR'') SYSFLOW_SRC @ '' '' @
                     GetStr r (sfgo ''PROC_EXEARGS_STR'') SYSFLOW_SRC))"
    by (simp add: mapJoin_def mapJoin_loop_eq)
  ultimately show ?thesis
    using Mapper_literal_returns [of e] by blast
qed

theorem mapJoin_total_iff_nonempty_witness:
  "[sfgo ''PROC_EXE_STR'', sfgo ''PROC_EXEARGS_STR''] \<noteq> [] \<and>
   mapJoin SYSFLOW_SRC [sfgo ''PROC_EXE_STR'', sfgo ''PROC_EXEARGS_STR'']
     \<lparr>GetStr = \<lambda>a s. (if a = sfgo ''PROC_EXE_STR'' then ''/bin/ls'' else ''-l /tmp''),
      GetInt = \<lambda>a s. 0, GetCachedValue = \<lambda>oid a. VOther\<rparr>
     = Inr (VString ''/bin/ls -l /tmp'')"
  using mapJoin_total_iff_nonempty
    [of "[sfgo ''PROC_EXE_STR'', sfgo ''PROC_EXEARGS_STR'']" SYSFLOW_SRC
        "\<lparr>GetStr = \<lambda>a s. (if a = sfgo ''PROC_EXE_STR'' then ''/bin/ls'' else ''-l /tmp''),
          GetInt = \<lambda>a s. 0, GetCachedValue = \<lambda>oid a. VOther\<rparr>"]
  by simp

subsection \<open>The protocol name\<close>

text \<open>
  Claim C4, on the code as it is. The extractor the registry binds under the protocol-name
  constant is \<open>mapProto\<close> on the protocol field; on every record it returns that field as
  an integer, the same value as the extractor under the protocol-number constant, and no
  name: on a record whose protocol field is 6 it returns the integer 6.
\<close>

theorem mapProto_returns_number:
  "map_of (Mapper_literal e) ''SF_NET_PROTONAME''
     = Some (mapProto SYSFLOW_SRC (sfgo ''FL_NETW_PROTO_INT'')) \<and>
   map_of (Mapper_literal e) ''SF_NET_PROTO''
     = Some (mapInt SYSFLOW_SRC (sfgo ''FL_NETW_PROTO_INT'')) \<and>
   mapProto src attr r = Inr (VInt64 (GetInt r attr src)) \<and>
   mapProto src attr r = mapInt src attr r \<and>
   mapProto SYSFLOW_SRC (sfgo ''FL_NETW_PROTO_INT'')
     \<lparr>GetStr = \<lambda>a s. [], GetInt = \<lambda>a s. 6, GetCachedValue = \<lambda>oid a. VOther\<rparr>
     = Inr (VInt64 6)"
  by (simp add: Mapper_literal_def mapProto_def mapInt_def)

subsection \<open>Decimal literals\<close>

lemma digit_of_base10:
  "(case digit_of c of None \<Rightarrow> False | Some d \<Rightarrow> d < 10) \<longleftrightarrow> is_digit c"
  "is_digit c \<Longrightarrow> digit_of c = Some (of_char c - 48)"
  by (auto simp: digit_of_def is_digit_def lower_def Let_def less_eq_char_def split: if_splits)

lemma decimal_step_mono: "(n::nat) \<le> foldl (\<lambda>n c. 10 * n + (of_char c - 48)) n ds"
proof (induction ds arbitrary: n)
  case Nil
  show ?case by simp
next
  case (Cons c ds)
  have "n \<le> 10 * n + (of_char c - 48)" by simp
  also have "\<dots> \<le> foldl (\<lambda>n c. 10 * n + (of_char c - 48)) (10 * n + (of_char c - 48)) ds"
    by (rule Cons.IH)
  finally show ?case by simp
qed

lemma ParseUint_loop_digits:
  assumes "list_all is_digit ds" and "foldl (\<lambda>n c. 10 * n + (of_char c - 48)) n ds \<le> maxUint64"
  shows "ParseUint_loop 10 n ds = Inr (foldl (\<lambda>n c. 10 * n + (of_char c - 48)) n ds)"
  using assms
proof (induction ds arbitrary: n)
  case Nil
  show ?case by simp
next
  case (Cons c ds)
  let ?d = "of_char c - 48 :: nat"
  from Cons.prems have dig: "is_digit c" and rest: "list_all is_digit ds" by simp_all
  then have d: "digit_of c = Some ?d" "?d < 10"
    using digit_of_base10 [of c] by simp_all
  from Cons.prems have bound: "foldl (\<lambda>n c. 10 * n + (of_char c - 48)) (10 * n + ?d) ds \<le> maxUint64"
    by simp
  have "10 * n + ?d \<le> maxUint64"
    using decimal_step_mono [of "10 * n + ?d" ds] bound by linarith
  then have small: "n * 10 + ?d < 2 ^ 64" "n * 10 < 2 ^ 64" "\<not> n \<ge> maxUint64 div 10 + 1"
    by (simp_all add: maxUint64_def)
  have "ParseUint_loop 10 n (c # ds) = ParseUint_loop 10 (n * 10 + ?d) ds"
    using d small by (simp add: Let_def maxUint64_def)
  also have "\<dots> = Inr (foldl (\<lambda>n c. 10 * n + (of_char c - 48)) (10 * n + ?d) ds)"
    using Cons.IH [of "n * 10 + ?d"] rest bound by (simp add: mult.commute)
  finally show ?case by simp
qed

lemma ParseUint_loop_Inr:
  assumes "ParseUint_loop 10 n ds = Inr v" and "n \<le> maxUint64"
  shows "list_all is_digit ds \<and> v = foldl (\<lambda>n c. 10 * n + (of_char c - 48)) n ds \<and> v \<le> maxUint64"
  using assms
proof (induction ds arbitrary: n)
  case Nil
  then show ?case by simp
next
  case (Cons c ds)
  let ?d = "of_char c - 48 :: nat"
  from Cons.prems(1) obtain d where d: "digit_of c = Some d" "d < 10"
    by (auto split: option.splits if_splits)
  then have dig: "is_digit c"
    using digit_of_base10(1) [of c] by simp
  then have dd: "d = ?d"
    using digit_of_base10(2) [of c] d by simp
  from Cons.prems(1) d have cut: "\<not> n \<ge> maxUint64 div 10 + 1"
    by (auto split: if_splits)
  then have n0: "(n * 10) mod 2 ^ 64 = n * 10"
    by (simp add: maxUint64_def)
  from Cons.prems(1) d cut n0 have nowrap: "\<not> (n * 10 + d) mod 2 ^ 64 < n * 10"
    by (auto simp: Let_def split: if_splits)
  have "n * 10 + d < 2 ^ 64"
  proof (rule ccontr)
    assume "\<not> n * 10 + d < 2 ^ 64"
    then have ge: "2 ^ 64 \<le> n * 10 + d" by simp
    from cut d have "n * 10 + d < 2 ^ 64 + 2 ^ 64" by (simp add: maxUint64_def)
    with ge have "(n * 10 + d) mod 2 ^ 64 = n * 10 + d - 2 ^ 64"
      by (simp add: mod_if)
    with d ge nowrap show False by simp
  qed
  then have n1: "(n * 10 + d) mod 2 ^ 64 = n * 10 + d" and le: "n * 10 + d \<le> maxUint64"
    by (simp_all add: maxUint64_def)
  from Cons.prems(1) d cut n0 n1 nowrap have "ParseUint_loop 10 (n * 10 + d) ds = Inr v"
    by (simp add: Let_def split: if_splits)
  from Cons.IH [OF this le] dig dd show ?case
    by (simp add: mult.commute)
qed

lemma ParseUint_decimal:
  assumes "ds \<noteq> []" and "list_all is_digit ds" and "decimal_value ds \<le> maxUint64"
  shows "ParseUint ds 10 = Inr (decimal_value ds)"
  using assms ParseUint_loop_digits [of ds 0] by (simp add: ParseUint_def decimal_value_def)

lemma ParseUint_not_decimal:
  assumes "\<not> (ds \<noteq> [] \<and> list_all is_digit ds \<and> decimal_value ds \<le> maxUint64)"
  shows "\<exists>err. ParseUint ds 10 = Inl err"
proof (cases "ParseUint ds 10")
  case (Inl err)
  then show ?thesis by simp
next
  case (Inr v)
  then have "ds \<noteq> []" and "ParseUint_loop 10 0 ds = Inr v"
    by (auto simp: ParseUint_def split: if_splits)
  with ParseUint_loop_Inr [of 0 ds v] assms show ?thesis
    by (simp add: decimal_value_def)
qed

lemma ParseInt10_literal: "ParseInt10 s = map_option word_of_int (int64_literal s)"
proof (cases "s = []")
  case True
  then show ?thesis
    by (simp add: ParseInt10_def int64_literal_def)
next
  case False
  define neg where "neg \<longleftrightarrow> hd s = CHR ''-''"
  define ds where "ds = (if hd s = CHR ''+'' \<or> hd s = CHR ''-'' then tl s else s)"
  define ok where "ok \<longleftrightarrow> ds \<noteq> [] \<and> list_all is_digit ds \<and> decimal_value ds \<le> maxUint64"
  have P: "ParseInt10 s =
      (case ParseUint ds 10 of
         Inl err \<Rightarrow> None
       | Inr un \<Rightarrow>
           if \<not> neg \<and> un \<ge> 2 ^ 63 then None
           else if neg \<and> un > 2 ^ 63 then None
           else Some (if neg then - word_of_nat un else word_of_nat un))"
    unfolding ParseInt10_def neg_def ds_def Let_def using False by (simp only: if_False)
  have L: "int64_literal s =
      (if ds \<noteq> [] \<and> list_all is_digit ds \<and>
          - (2 ^ 63) \<le> (if neg then - int (decimal_value ds) else int (decimal_value ds)) \<and>
          (if neg then - int (decimal_value ds) else int (decimal_value ds)) < 2 ^ 63
       then Some (if neg then - int (decimal_value ds) else int (decimal_value ds)) else None)"
    unfolding int64_literal_def neg_def ds_def Let_def using False by (simp add: disj_commute)
  show ?thesis
  proof (cases ok)
    case True
    then have "ParseUint ds 10 = Inr (decimal_value ds)"
      using ParseUint_decimal [of ds] by (simp add: ok_def)
    with True show ?thesis
      unfolding P L by (auto simp: ok_def)
  next
    case False
    then obtain err where "ParseUint ds 10 = Inl err"
      using ParseUint_not_decimal [of ds] by (auto simp: ok_def)
    moreover from False have "\<not> (ds \<noteq> [] \<and> list_all is_digit ds \<and>
        - (2 ^ 63) \<le> (if neg then - int (decimal_value ds) else int (decimal_value ds)) \<and>
        (if neg then - int (decimal_value ds) else int (decimal_value ds)) < 2 ^ 63)"
      by (auto simp: ok_def maxUint64_def)
    ultimately show ?thesis
      unfolding P L by simp
  qed
qed

lemma digit_char:
  assumes "k < 10"
  shows "is_digit (''0123456789'' ! k)" and "of_char (''0123456789'' ! k) - 48 = k"
proof -
  from assms have "k \<in> {0, 1, 2, 3, 4, 5, 6, 7, 8, 9}"
    by auto
  then show "is_digit (''0123456789'' ! k)" and "of_char (''0123456789'' ! k) - 48 = k"
    by (auto simp: is_digit_def less_eq_char_def)
qed

lemma decimal_value_snoc:
  "decimal_value (ds @ [c]) = 10 * decimal_value ds + (of_char c - 48)"
  by (simp add: decimal_value_def)

lemma digits10_decimal:
  "digits10 n \<noteq> [] \<and> list_all is_digit (digits10 n) \<and> decimal_value (digits10 n) = n"
proof (induction n rule: digits10.induct)
  case (1 n)
  show ?case
  proof (cases "n < 10")
    case True
    then show ?thesis
      using digit_char [of n] by (simp add: digits10_small decimal_value_def)
  next
    case False
    then have "digits10 n = digits10 (n div 10) @ [''0123456789'' ! (n mod 10)]"
      by (simp add: digits10_large)
    moreover have "n mod 10 < 10" by simp
    ultimately show ?thesis
      using "1.IH" [OF False] digit_char [of "n mod 10"]
      by (simp add: decimal_value_snoc)
  qed
qed

lemma FormatInt10_literal: "int64_literal (FormatInt10 i) = Some (sint i)"
proof -
  have range: "- (2 ^ 63) \<le> sint i" "sint i < 2 ^ 63"
    using sint_ge [of i] sint_lt [of i] by simp_all
  show ?thesis
  proof (cases "sint i < 0")
    case True
    with range show ?thesis
      using digits10_decimal [of "nat (- sint i)"]
      by (simp add: FormatInt10_def int64_literal_def Let_def)
  next
    case False
    define ds where "ds = digits10 (nat (sint i))"
    have ds: "ds \<noteq> []" "list_all is_digit ds" "decimal_value ds = nat (sint i)"
      using digits10_decimal [of "nat (sint i)"] by (simp_all add: ds_def)
    then have "is_digit (hd ds)"
      by (cases ds) simp_all
    then have "hd ds \<noteq> CHR ''-''" "hd ds \<noteq> CHR ''+''"
      by (auto simp: is_digit_def less_eq_char_def)
    with False range ds show ?thesis
      by (simp add: FormatInt10_def int64_literal_def Let_def ds_def [symmetric])
  qed
qed

lemma trimBoundingQuotes_strip:
  "trimBoundingQuotes s = strip_trailing_quote (strip_leading_quote s)"
proof -
  have lead: "(if length s > 0 \<and> (s ! 0 = CHR 0x22 \<or> s ! 0 = CHR 0x27) then drop 1 s else s)
      = strip_leading_quote s"
    by (cases s) (auto simp: strip_leading_quote_def quote_chars_def)
  have trail: "(if length t > 0 \<and> (t ! (length t - 1) = CHR 0x22 \<or> t ! (length t - 1) = CHR 0x27)
                then take (length t - 1) t else t) = strip_trailing_quote t" for t :: string
    by (cases t rule: rev_cases) (auto simp: strip_trailing_quote_def quote_chars_def nth_append butlast_conv_take)
  show ?thesis
    unfolding trimBoundingQuotes_def Let_def lead trail ..
qed

subsection \<open>Integer resolution\<close>

text \<open>
  Claim C2. \<open>MapInt\<close> returns the extracted value when the generic extractor yields an
  integer; otherwise the value of the attribute name when the name is a 64-bit signed
  decimal literal (what \<open>ParseInt10\<close> accepts, and with that value); otherwise zero. It
  fails only where the generic extractor does, and no extractor of the registry does: on
  the registry, every name and every record give a result.
\<close>

theorem MapInt_coercion:
  "(case Map m attr r of
      Inl p \<Rightarrow> MapInt m attr r = Inl p
    | Inr (VInt64 v) \<Rightarrow> MapInt m attr r = Inr v
    | Inr _ \<Rightarrow> MapInt m attr r =
        Inr (case int64_literal attr of Some i \<Rightarrow> word_of_int i | None \<Rightarrow> 0)) \<and>
   ParseInt10 attr = map_option word_of_int (int64_literal attr) \<and>
   (\<exists>v. Map (Mapper e) attr r = Inr v) \<and>
   (\<exists>i. MapInt (Mapper e) attr r = Inr i)"
proof -
  have "\<exists>i. MapInt (Mapper e) attr r = Inr i"
    using Map_Mapper_returns [of e attr r]
    by (auto simp: MapInt_def split: Value.splits option.splits)
  moreover have "case Map m attr r of
      Inl p \<Rightarrow> MapInt m attr r = Inl p
    | Inr (VInt64 v) \<Rightarrow> MapInt m attr r = Inr v
    | Inr _ \<Rightarrow> MapInt m attr r =
        Inr (case int64_literal attr of Some i \<Rightarrow> word_of_int i | None \<Rightarrow> 0)"
    by (simp add: MapInt_def ParseInt10_literal Zeros_Int64_def
        split: sum.splits Value.splits option.splits)
  ultimately show ?thesis
    using Map_Mapper_returns [of e attr r] ParseInt10_literal [of attr] by blast
qed

subsection \<open>String resolution\<close>

text \<open>
  Claim C3. \<open>MapStr\<close> returns, for an extracted string, that string without one leading
  quote character (if it has one) and then without one trailing quote character (if what
  is left has one), the two not being compared; for an integer its decimal formatting, a
  decimal literal whose value is the signed integer; for a boolean \<open>true\<close> or \<open>false\<close>;
  and the empty string for any other value. It fails only where the generic extractor
  does, which no extractor of the registry does.
\<close>

theorem MapStr_coercion:
  "(case Map m attr r of
      Inl p \<Rightarrow> MapStr m attr r = Inl p
    | Inr (VString s) \<Rightarrow> MapStr m attr r = Inr (strip_trailing_quote (strip_leading_quote s))
    | Inr (VInt64 i) \<Rightarrow> MapStr m attr r = Inr (FormatInt10 i) \<and> int64_literal (FormatInt10 i) = Some (sint i)
    | Inr (VBool b) \<Rightarrow> MapStr m attr r = Inr (if b then ''true'' else ''false'')
    | Inr VOther \<Rightarrow> MapStr m attr r = Inr []) \<and>
   strip_trailing_quote (strip_leading_quote [CHR 0x22, CHR ''f'', CHR ''o'', CHR ''o'', CHR 0x22]) = ''foo'' \<and>
   strip_trailing_quote (strip_leading_quote ''foo'') = ''foo'' \<and>
   strip_trailing_quote (strip_leading_quote [CHR 0x27, CHR ''f'', CHR ''o'', CHR ''o'', CHR 0x22]) = ''foo'' \<and>
   FormatInt10 (- 42) = ''-42'' \<and>
   (\<exists>s. MapStr (Mapper e) attr r = Inr s)"
proof -
  have "\<exists>s. MapStr (Mapper e) attr r = Inr s"
    using Map_Mapper_returns [of e attr r]
    by (auto simp: MapStr_def split: Value.splits)
  moreover have "case Map m attr r of
      Inl p \<Rightarrow> MapStr m attr r = Inl p
    | Inr (VString s) \<Rightarrow> MapStr m attr r = Inr (strip_trailing_quote (strip_leading_quote s))
    | Inr (VInt64 i) \<Rightarrow> MapStr m attr r = Inr (FormatInt10 i) \<and> int64_literal (FormatInt10 i) = Some (sint i)
    | Inr (VBool b) \<Rightarrow> MapStr m attr r = Inr (if b then ''true'' else ''false'')
    | Inr VOther \<Rightarrow> MapStr m attr r = Inr []"
    by (simp add: MapStr_def trimBoundingQuotes_strip FormatInt10_literal FormatBool_def
        Zeros_String_def split: sum.splits Value.splits)
  moreover have "strip_trailing_quote (strip_leading_quote [CHR 0x22, CHR ''f'', CHR ''o'', CHR ''o'', CHR 0x22]) = ''foo''"
    "strip_trailing_quote (strip_leading_quote ''foo'') = ''foo''"
    "strip_trailing_quote (strip_leading_quote [CHR 0x27, CHR ''f'', CHR ''o'', CHR ''o'', CHR 0x22]) = ''foo''"
    by (simp_all add: strip_trailing_quote_def strip_leading_quote_def quote_chars_def)
  moreover have "FormatInt10 (- 42) = ''-42''"
    by (simp add: FormatInt10_def digits10_small digits10_large)
  ultimately show ?thesis
    by blast
qed

subsection \<open>The sorted enumeration of the names\<close>

lemma Split_not_Nil: "Split s sep \<noteq> []"
  by (induction s) (auto split: list.splits)

lemma length_Split: "length (Split s sep) = Suc (count_list s sep)"
proof (induction s)
  case Nil
  show ?case by simp
next
  case (Cons c cs)
  then show ?case
    using Split_not_Nil [of cs sep] by (cases "Split cs sep") auto
qed

lemma Compare_less: "Compare a b < 0 \<longleftrightarrow> a < b"
  by (induction a b rule: Compare.induct) (auto simp: less_char_def)

lemma keys_less_name_before: "keys_less a b \<longleftrightarrow> name_before a b"
  by (auto simp: keys_less_def name_before_def segment_count_def length_Split Compare_less Let_def)

lemma name_before_key: "name_before a b \<longleftrightarrow> (segment_count a, a) < (segment_count b, b)"
  by (auto simp: name_before_def)

lemma name_before_fun: "name_before = (\<lambda>a b. (segment_count a, a) < (segment_count b, b))"
  by (simp add: fun_eq_iff name_before_key)

lemma insert_stable_insort:
  "insert_stable keys_less x ys = insort_key (\<lambda>s. (segment_count s, s)) x ys"
  by (induction ys) (auto simp: keys_less_name_before name_before_key)

lemma getFields_sort: "getFields keys = sort_key (\<lambda>s. (segment_count s, s)) keys"
  unfolding getFields_def
  by (induction keys) (simp_all add: insert_stable_insort sort_key_def)

lemma getFields_set: "set (getFields keys) = set keys"
  by (simp add: getFields_sort)

lemma getFields_distinct: "distinct (getFields keys) \<longleftrightarrow> distinct keys"
  by (simp add: getFields_sort)

lemma getFields_sorted:
  assumes "distinct keys"
  shows "sorted_wrt name_before (getFields keys)"
proof -
  let ?f = "\<lambda>s :: string. (segment_count s, s)"
  have "inj ?f"
    by (simp add: inj_on_def)
  then have "distinct (map ?f (getFields keys))"
    using assms by (simp add: distinct_map getFields_distinct inj_on_def)
  moreover have "sorted (map ?f (getFields keys))"
    by (simp add: getFields_sort)
  ultimately have "sorted_wrt (<) (map ?f (getFields keys))"
    by (simp add: strict_sorted_iff)
  then show ?thesis
    unfolding name_before_fun by (simp only: sorted_wrt_map)
qed

lemma name_before_sorted_unique:
  assumes "sorted_wrt name_before xs" and "sorted_wrt name_before ys" and "set xs = set ys"
  shows "xs = ys"
proof -
  let ?f = "\<lambda>s :: string. (segment_count s, s)"
  have inj: "inj ?f"
    by (simp add: inj_on_def)
  from assms(1,2) have "sorted_wrt (<) (map ?f xs)" "sorted_wrt (<) (map ?f ys)"
    unfolding name_before_fun by (simp_all only: sorted_wrt_map)
  moreover from assms(3) have "set (map ?f xs) = set (map ?f ys)"
    by simp
  ultimately have "map ?f xs = map ?f ys"
    by (simp add: strict_sorted_equal)
  with inj show ?thesis
    by (simp add: inj_map_eq_map)
qed

text \<open>
  Claim C5. Whatever the order in which the range loop visits the keys of the mapper table
  (each key once), \<open>getFields\<close> returns every registered name exactly once, each name of
  fewer dot-separated segments before each name of more, and among names of as many
  segments each lexicographically smaller name before the larger. For the four names
  \<open>ts\<close>, \<open>proc.pid\<close>, \<open>proc.name\<close> and \<open>a\<close> the result is \<open>a\<close>, \<open>ts\<close>,
  \<open>proc.name\<close>, \<open>proc.pid\<close>.
\<close>

theorem getFields_sorted_enumeration:
  assumes "distinct keys" and "set keys = dom (Mappers m)"
  shows "set (getFields keys) = dom (Mappers m) \<and> distinct (getFields keys) \<and>
         sorted_wrt name_before (getFields keys) \<and>
         (dom (Mappers m) = {''ts'', ''proc.pid'', ''proc.name'', ''a''} \<longrightarrow>
            getFields keys = [''a'', ''ts'', ''proc.name'', ''proc.pid''])"
proof -
  have sorted: "sorted_wrt name_before (getFields keys)"
    using assms(1) by (rule getFields_sorted)
  have "getFields keys = [''a'', ''ts'', ''proc.name'', ''proc.pid'']"
    if "dom (Mappers m) = {''ts'', ''proc.pid'', ''proc.name'', ''a''}"
  proof (rule name_before_sorted_unique [OF sorted])
    show "sorted_wrt name_before [''a'', ''ts'', ''proc.name'', ''proc.pid'']"
      by (simp add: name_before_def segment_count_def less_char_def)
    show "set (getFields keys) = set [''a'', ''ts'', ''proc.name'', ''proc.pid'']"
      using that assms(2) by (auto simp: getFields_set)
  qed
  with sorted assms show ?thesis
    by (simp add: getFields_set getFields_distinct)
qed

theorem getFields_sorted_enumeration_witness:
  "distinct [''ts'', ''proc.pid'', ''proc.name'', ''a''] \<and>
   set [''ts'', ''proc.pid'', ''proc.name'', ''a'']
     = dom (Mappers \<lparr>Mappers = map_of (map (\<lambda>k. (k, mapNa k)) [''ts'', ''proc.pid'', ''proc.name'', ''a''])\<rparr>) \<and>
   dom (Mappers \<lparr>Mappers = map_of (map (\<lambda>k. (k, mapNa k)) [''ts'', ''proc.pid'', ''proc.name'', ''a''])\<rparr>)
     = {''ts'', ''proc.pid'', ''proc.name'', ''a''} \<and>
   getFields [''ts'', ''proc.pid'', ''proc.name'', ''a''] = [''a'', ''ts'', ''proc.name'', ''proc.pid''] \<and>
   sorted_wrt name_before (getFields [''ts'', ''proc.pid'', ''proc.name'', ''a''])"
proof -
  have d: "distinct [''ts'', ''proc.pid'', ''proc.name'', ''a'']"
    by simp
  have s: "set [''ts'', ''proc.pid'', ''proc.name'', ''a'']
     = dom (Mappers \<lparr>Mappers = map_of (map (\<lambda>k. (k, mapNa k)) [''ts'', ''proc.pid'', ''proc.name'', ''a''])\<rparr>)"
    by (simp add: dom_map_of_conv_image_fst)
  show ?thesis
    using getFields_sorted_enumeration [OF d s] d s
    by (simp add: name_before_def segment_count_def less_char_def)
qed

subsection \<open>Link paths\<close>

text \<open>
  Claim C6, on the code as it is. \<open>mapLinkPath\<close> returns the third operand of the scan
  when the scan succeeds and the original string when it fails, and never panics. The
  third operand is read with the verb \<^verbatim>\<open>%s\<close>, which stops at the first space: on the two
  strings of the specification the result is the target path and the unchanged string, but
  on a link whose target path holds a space the result is the path up to that space,
  neither the target path nor the original string.
\<close>

theorem mapLinkPath_stops_at_space:
  "mapLinkPath SYSFLOW_SRC (sfgo ''FILE_PATH_STR'')
     \<lparr>GetStr = \<lambda>a s. ''aabbccddeeff0011->aabbccddeeff0011 /path/to/my file.txt'',
      GetInt = \<lambda>a s. 0, GetCachedValue = \<lambda>oid a. VOther\<rparr>
     = Inr (VString ''/path/to/my'') \<and>
   mapLinkPath SYSFLOW_SRC (sfgo ''FILE_PATH_STR'')
     \<lparr>GetStr = \<lambda>a s. ''aabbccddeeff0011->aabbccddeeff0011 /path/to/target.file'',
      GetInt = \<lambda>a s. 0, GetCachedValue = \<lambda>oid a. VOther\<rparr>
     = Inr (VString ''/path/to/target.file'') \<and>
   mapLinkPath SYSFLOW_SRC (sfgo ''FILE_PATH_STR'')
     \<lparr>GetStr = \<lambda>a s. ''/plain/path'', GetInt = \<lambda>a s. 0, GetCachedValue = \<lambda>oid a. VOther\<rparr>
     = Inr (VString ''/plain/path'') \<and>
   returns (mapLinkPath src attr)"
proof -
  have "Sscanf_link ''aabbccddeeff0011->aabbccddeeff0011 /path/to/my file.txt''
      = Some (0xaabbccddeeff0011, 0xaabbccddeeff0011, ''/path/to/my'')"
    by (simp add: scan_defs)
  moreover have "Sscanf_link ''aabbccddeeff0011->aabbccddeeff0011 /path/to/target.file''
      = Some (0xaabbccddeeff0011, 0xaabbccddeeff0011, ''/path/to/target.file'')"
    by (simp add: scan_defs)
  moreover have "Sscanf_link ''/plain/path'' = None"
    by (simp add: scan_defs)
  moreover have "returns (mapLinkPath src attr)"
    by simp
  ultimately show ?thesis
    by (simp add: mapLinkPath_def)
qed

end
